theory Spec2Isabelle
  imports Main "HOL-Library.Word"
begin

section \<open>Shared Go types\<close>

text \<open>
  Go's \<^verbatim>\<open>error\<close> interface. The code under study tells errors apart in two ways: by
  the text of \<^verbatim>\<open>err.Error()\<close> and by the API status reason (\<^verbatim>\<open>kerrors.IsNotFound\<close>,
  \<^verbatim>\<open>kerrors.IsForbidden\<close>). A nil error is \<open>None\<close>.
\<close>

datatype StatusReason = StatusReasonNotFound | StatusReasonForbidden | StatusReasonUnknown

datatype error =
    StatusError string StatusReason
  | OtherError string

fun Error :: "error \<Rightarrow> string" where
  "Error (StatusError m r) = m"
| "Error (OtherError m) = m"

fun IsNotFound :: "error option \<Rightarrow> bool" where
  "IsNotFound (Some (StatusError m r)) = (r = StatusReasonNotFound)"
| "IsNotFound e = False"

fun IsForbidden :: "error option \<Rightarrow> bool" where
  "IsForbidden (Some (StatusError m r)) = (r = StatusReasonForbidden)"
| "IsForbidden e = False"

type_synonym bytes = "8 word list"

text \<open>
  \<^verbatim>\<open>rest.Config\<close> (\<^verbatim>\<open>k8s.io/client-go/rest\<close>), restricted to the fields the code reads. The
  struct embeds \<^verbatim>\<open>TLSClientConfig\<close>, so \<^verbatim>\<open>clientCfg.CAFile\<close> is
  \<^verbatim>\<open>clientCfg.TLSClientConfig.CAFile\<close>. A nil byte slice is the empty list.
\<close>

record TLSClientConfig =
  Insecure :: bool
  CertFile :: string
  KeyFile :: string
  CAFile :: string
  CertData :: bytes
  KeyData :: bytes
  CAData :: bytes

record Config =
  Host :: string
  Username :: string
  BearerToken :: string
  TLSClientConfig :: TLSClientConfig

section \<open>pkg/invariants/clusterinfo\_serializer/invariant.go\<close>

text \<open>
  \<^verbatim>\<open>type clusterInfoSerializer struct { adminRESTConfig *rest.Config }\<close>; the pointer is
  nil until \<^verbatim>\<open>StartCollection\<close> stores one. Intervals, junit test cases, the resources
  map, times, contexts and the recorder are declared outside this package and are type
  parameters here; a nil slice is the empty list.
\<close>

record clusterInfoSerializer =
  adminRESTConfig :: "Config option"

definition NewClusterInfoSerializer :: clusterInfoSerializer where
  "NewClusterInfoSerializer = \<lparr>adminRESTConfig = None\<rparr>"

definition StartCollection ::
  "clusterInfoSerializer \<Rightarrow> 'ctx \<Rightarrow> Config option \<Rightarrow> 'rec
     \<Rightarrow> clusterInfoSerializer \<times> error option" where
  "StartCollection w ctx adminRESTConfig' recorder =
     (w\<lparr>adminRESTConfig := adminRESTConfig'\<rparr>, None)"

text \<open>As written in this file, \<^verbatim>\<open>CollectData\<close> takes the context and the two times only.\<close>

definition CollectData ::
  "clusterInfoSerializer \<Rightarrow> 'ctx \<Rightarrow> 't \<Rightarrow> 't
     \<Rightarrow> clusterInfoSerializer \<times> ('iv list \<times> 'ju list \<times> error option)" where
  "CollectData w ctx beginning end' = (w, ([], [], None))"

definition ConstructComputedIntervals ::
  "clusterInfoSerializer \<Rightarrow> 'ctx \<Rightarrow> 'iv list \<Rightarrow> 'res \<Rightarrow> 't \<Rightarrow> 't
     \<Rightarrow> clusterInfoSerializer \<times> ('iv list \<times> error option)" where
  "ConstructComputedIntervals w ctx startingIntervals recordedResources beginning end' =
     (w, ([], None))"

definition EvaluateTestsFromConstructedIntervals ::
  "clusterInfoSerializer \<Rightarrow> 'ctx \<Rightarrow> 'iv list
     \<Rightarrow> clusterInfoSerializer \<times> ('ju list \<times> error option)" where
  "EvaluateTestsFromConstructedIntervals w ctx finalIntervals = (w, ([], None))"

definition Cleanup ::
  "clusterInfoSerializer \<Rightarrow> 'ctx \<Rightarrow> clusterInfoSerializer \<times> error option" where
  "Cleanup w ctx = (w, None)"

text \<open>
  What \<^verbatim>\<open>WriteContentToStorage\<close> calls outside this file: \<^verbatim>\<open>filepath.Join\<close>,
  \<^verbatim>\<open>json.MarshalIndent\<close> and \<^verbatim>\<open>ioutil.WriteFile\<close> of the Go library, and
  \<^verbatim>\<open>monitor.WasMasterNodeUpdated\<close> and \<^verbatim>\<open>monitor.CollectClusterData\<close>. They are
  parameters; the file system \<open>'fs\<close> is threaded through the write.
\<close>

record ('iv, 'cd, 'fs) storage_deps =
  Join :: "string \<Rightarrow> string \<Rightarrow> string"
  MarshalIndent :: "'cd \<Rightarrow> string \<Rightarrow> string \<Rightarrow> error + bytes"
  WriteFile :: "string \<Rightarrow> bytes \<Rightarrow> nat \<Rightarrow> 'fs \<Rightarrow> error option \<times> 'fs"
  WasMasterNodeUpdated :: "'iv list \<Rightarrow> string"
  CollectClusterData :: "Config option \<Rightarrow> string \<Rightarrow> 'cd"

definition writeClusterData ::
  "('iv, 'cd, 'fs) storage_deps \<Rightarrow> string \<Rightarrow> 'cd \<Rightarrow> 'fs \<Rightarrow> error option \<times> 'fs" where
  "writeClusterData D filename clusterData fs =
     (case MarshalIndent D clusterData '''' ''    '' of
        Inl err \<Rightarrow> (Some err, fs)
      | Inr jsonContent \<Rightarrow> WriteFile D filename jsonContent 420 fs)"
  \<comment> \<open>the mode \<^verbatim>\<open>0644\<close> is octal: 420\<close>

definition collectClusterData ::
  "('iv, 'cd, 'fs) storage_deps \<Rightarrow> clusterInfoSerializer \<Rightarrow> string \<Rightarrow> 'cd" where
  "collectClusterData D w masterNodeUpdated =
     CollectClusterData D (adminRESTConfig w) masterNodeUpdated"

definition WriteContentToStorage ::
  "('iv, 'cd, 'fs) storage_deps \<Rightarrow> clusterInfoSerializer \<Rightarrow> 'ctx \<Rightarrow> string \<Rightarrow> string
     \<Rightarrow> 'iv list \<Rightarrow> 'res \<Rightarrow> 'fs \<Rightarrow> clusterInfoSerializer \<times> error option \<times> 'fs" where
  "WriteContentToStorage D w ctx storageDir timeSuffix finalIntervals finalResourceState fs =
     (w, writeClusterData D
           (Join D storageDir (''cluster-data'' @ timeSuffix @ ''.json''))
           (collectClusterData D w (WasMasterNodeUpdated D finalIntervals)) fs)"

text \<open>\<open>n\<close> consecutive calls of \<^verbatim>\<open>Cleanup\<close>: the final state and every call's error.\<close>

fun CleanupTimes :: "nat \<Rightarrow> clusterInfoSerializer \<Rightarrow> 'ctx
     \<Rightarrow> clusterInfoSerializer \<times> error option list" where
  "CleanupTimes 0 w ctx = (w, [])"
| "CleanupTimes (Suc n) w ctx =
     (case Cleanup w ctx of (w', e) \<Rightarrow>
        (case CleanupTimes n w' ctx of (w'', es) \<Rightarrow> (w'', e # es)))"


section \<open>pkg/invariants/types.go: the registry\<close>

text \<open>
  \<^verbatim>\<open>types.go\<close> declares the interface \<^verbatim>\<open>InvariantRegistry\<close> only:
  \<^verbatim>\<open>AddRegistryOrDie(registry)\<close>, \<^verbatim>\<open>AddInvariant(name, jiraComponent, invariantTest) error\<close>,
  \<^verbatim>\<open>AddInvariantOrDie(name, jiraComponent, invariantTest)\<close> and
  \<^verbatim>\<open>getInvariantTests() map[string]*invariantItem\<close>. The type that implements it and
  the struct \<^verbatim>\<open>invariantItem\<close> are not among the sources, so this section follows the
  spec.
\<close>

text \<open>
  Modelled from the spec: the struct \<^verbatim>\<open>invariantItem\<close> is missing. The spec's observer
  registration is \<open>{unique name, ownership tag, observer instance}\<close>.
\<close>

record 'o invariantItem =
  name :: string
  jiraComponent :: string
  invariantTest :: 'o

text \<open>
  Modelled from the spec: the registry type is missing. A registry is the collection of
  its registrations, kept in the order they were made.
\<close>

type_synonym 'o invariantRegistry = "'o invariantItem list"

text \<open>
  Modelled from the spec: the constructor of the registry is missing. A new registry has
  no registrations.
\<close>

definition NewRegistry :: "'o invariantRegistry" where
  "NewRegistry = []"

text \<open>
  Modelled from the spec: the body of \<^verbatim>\<open>getInvariantTests\<close> is missing. It is the
  name-keyed mapping of the registrations.
\<close>

definition getInvariantTests :: "'o invariantRegistry \<Rightarrow> (string \<rightharpoonup> 'o invariantItem)" where
  "getInvariantTests r = map_of (map (\<lambda>it. (name it, it)) r)"

text \<open>
  Modelled from the spec: the error of the registry is missing. The spec names it
  DuplicateNameError; it carries the name that was already present.
\<close>

datatype registry_error = DuplicateNameError string

text \<open>
  Modelled from the spec: the body of \<^verbatim>\<open>AddInvariant\<close> is missing.
  \<open>register(name, ownershipTag, observer)\<close> fails with DuplicateNameError if \<open>name\<close> is
  already present at this level; otherwise it stores the binding and succeeds. The
  registry is left as it was when the call fails.
\<close>

definition AddInvariant ::
  "string \<Rightarrow> string \<Rightarrow> 'o \<Rightarrow> 'o invariantRegistry
     \<Rightarrow> registry_error + 'o invariantRegistry" where
  "AddInvariant n jira test r =
     (if getInvariantTests r n \<noteq> None then Inl (DuplicateNameError n)
      else Inr (r @ [\<lparr>name = n, jiraComponent = jira, invariantTest = test\<rparr>]))"

text \<open>
  Modelled from the spec: the body of \<^verbatim>\<open>AddInvariantOrDie\<close> is missing. It has no error
  result in \<^verbatim>\<open>types.go\<close>; the spec makes a duplicate name a fatal configuration error.
  \<open>Inl\<close> is that fatal failure.
\<close>

definition AddInvariantOrDie ::
  "string \<Rightarrow> string \<Rightarrow> 'o \<Rightarrow> 'o invariantRegistry
     \<Rightarrow> registry_error + 'o invariantRegistry" where
  "AddInvariantOrDie n jira test r = AddInvariant n jira test r"

text \<open>
  Modelled from the spec: the loop of \<^verbatim>\<open>AddRegistryOrDie\<close> is missing. The child's
  entries are registered one after the other, and the first duplicate is fatal.
\<close>

fun addItemsOrDie ::
  "'o invariantItem list \<Rightarrow> 'o invariantRegistry \<Rightarrow> registry_error + 'o invariantRegistry" where
  "addItemsOrDie [] r = Inr r"
| "addItemsOrDie (v # vs) r =
     (case AddInvariantOrDie (name v) (jiraComponent v) (invariantTest v) r of
        Inl err \<Rightarrow> Inl err
      | Inr r' \<Rightarrow> addItemsOrDie vs r')"

text \<open>
  Modelled from the spec: the body of \<^verbatim>\<open>AddRegistryOrDie\<close> is missing.
  \<open>composeSubRegistry(childRegistry)\<close> merges all of the child's entries into this
  registry's namespace and fails with DuplicateNameError on any name collision across
  the union. It has no error result in \<^verbatim>\<open>types.go\<close>; \<open>Inl\<close> is the fatal failure.
\<close>

definition AddRegistryOrDie ::
  "'o invariantRegistry \<Rightarrow> 'o invariantRegistry \<Rightarrow> registry_error + 'o invariantRegistry" where
  "AddRegistryOrDie registry r = addItemsOrDie registry r"

text \<open>The names registered in a registry, in registration order.\<close>

definition names :: "'o invariantRegistry \<Rightarrow> string list" where
  "names r = map name r"

section \<open>pkg/invariants: method sets\<close>

text \<open>
  The method declarations, as data: parameter types and result types, in order. A Go
  type satisfies an interface when it has every method of the interface with the same
  signature.
\<close>

datatype GoType =
    GoContext | GoRestConfigPtr | GoRecorderWriter | GoString | GoTime
  | GoIntervals | GoJUnitTestCases | GoResourcesMap | GoClusterData | GoError

type_synonym signature = "GoType list \<times> GoType list"

text \<open>\<^verbatim>\<open>type InvariantTest interface\<close>, \<^verbatim>\<open>types.go\<close> lines 13 to 49.\<close>

definition InvariantTest :: "(string \<times> signature) list" where
  "InvariantTest =
    [(''StartCollection'', ([GoContext, GoRestConfigPtr, GoRecorderWriter], [GoError])),
     (''CollectData'',
        ([GoContext, GoString, GoTime, GoTime], [GoIntervals, GoJUnitTestCases, GoError])),
     (''ConstructComputedIntervals'',
        ([GoContext, GoIntervals, GoResourcesMap, GoTime, GoTime], [GoIntervals, GoError])),
     (''EvaluateTestsFromConstructedIntervals'',
        ([GoContext, GoIntervals], [GoJUnitTestCases, GoError])),
     (''WriteContentToStorage'',
        ([GoContext, GoString, GoString, GoIntervals, GoResourcesMap], [GoError])),
     (''Cleanup'', ([GoContext], [GoError]))]"

text \<open>The methods of \<^verbatim>\<open>*clusterInfoSerializer\<close>, \<^verbatim>\<open>invariant.go\<close> lines 28 to 68.\<close>

definition clusterInfoSerializer_methods :: "(string \<times> signature) list" where
  "clusterInfoSerializer_methods =
    [(''StartCollection'', ([GoContext, GoRestConfigPtr, GoRecorderWriter], [GoError])),
     (''CollectData'',
        ([GoContext, GoTime, GoTime], [GoIntervals, GoJUnitTestCases, GoError])),
     (''ConstructComputedIntervals'',
        ([GoContext, GoIntervals, GoResourcesMap, GoTime, GoTime], [GoIntervals, GoError])),
     (''EvaluateTestsFromConstructedIntervals'',
        ([GoContext, GoIntervals], [GoJUnitTestCases, GoError])),
     (''WriteContentToStorage'',
        ([GoContext, GoString, GoString, GoIntervals, GoResourcesMap], [GoError])),
     (''Cleanup'', ([GoContext], [GoError])),
     (''collectClusterData'', ([GoString], [GoClusterData]))]"

definition implements :: "(string \<times> signature) list \<Rightarrow> (string \<times> signature) list \<Rightarrow> bool" where
  "implements T I = list_all (\<lambda>(m, sg). map_of T m = Some sg) I"

section \<open>test/extended/util/oc\_copy.go\<close>

subsection \<open>Library calls\<close>

text \<open>
  \<^verbatim>\<open>strings.Contains\<close>: whether \<open>substr\<close> occurs in \<open>s\<close>.
\<close>

fun hasPrefix :: "string \<Rightarrow> string \<Rightarrow> bool" where
  "hasPrefix s [] = True"
| "hasPrefix [] (p # ps) = False"
| "hasPrefix (c # cs) (p # ps) = (c = p \<and> hasPrefix cs ps)"

fun strings_Contains :: "string \<Rightarrow> string \<Rightarrow> bool" where
  "strings_Contains [] substr = (substr = [])"
| "strings_Contains (c # cs) substr = (hasPrefix (c # cs) substr \<or> strings_Contains cs substr)"

text \<open>
  \<^verbatim>\<open>strings.Replace(s, old, new, -1)\<close> for \<open>old\<close> and \<open>new\<close> of one byte each, which is
  how the code calls it: every occurrence of the byte is replaced.
\<close>

definition strings_Replace :: "string \<Rightarrow> char \<Rightarrow> char \<Rightarrow> string" where
  "strings_Replace s old new = map (\<lambda>c. if c = old then new else c) s"

text \<open>
  What the file calls outside itself: \<^verbatim>\<open>url.Parse\<close> and \<^verbatim>\<open>netutil.CanonicalAddr\<close>,
  which depend on their argument alone, and \<^verbatim>\<open>userv1typedclient.NewForConfig\<close>, which
  builds the HTTP transport and for that reads the certificate files the configuration
  names; only whether it fails matters here. They are parameters, with the parsed URL a
  type parameter and the files on disk an argument of the constructor. \<open>ticks\<close> is the
  number of further attempts that fit into the poll's timeout after the immediate one:
  the code polls every second for a minute.
\<close>

record 'u util_deps =
  url_Parse :: "string \<Rightarrow> error + 'u"
  CanonicalAddr :: "'u \<Rightarrow> string"
  NewForConfig :: "Config \<Rightarrow> (string \<rightharpoonup> bytes) \<Rightarrow> error option"
  ticks :: nat

text \<open>
  What is outside the program. \<open>answers w i\<close> is what the \<open>i\<close>-th call of
  \<^verbatim>\<open>userClient.Users().Get(ctx, "~", ...)\<close> returns from the API server, a user object and
  an error; \<open>calls w\<close> counts the calls made so far; \<open>files w\<close> are the files on disk,
  which the program reads and never writes.
\<close>

record User =
  Name :: string

record world =
  answers :: "nat \<Rightarrow> User \<times> error option"
  calls :: nat
  files :: "string \<rightharpoonup> bytes"

definition DeadlineExceeded :: error where
  "DeadlineExceeded = OtherError ''context deadline exceeded''"

text \<open>
  \<^verbatim>\<open>wait.PollUntilContextTimeout(context.Background(), time.Second, time.Minute, true, ...)\<close>
  with the closure of \<^verbatim>\<open>getUserPartOfNickname\<close>: the closure stores the answer in
  \<^verbatim>\<open>userInfo\<close>, asks for another attempt when the error's text contains
  \<^verbatim>\<open>connect: connection refused\<close>, and otherwise ends the poll with the answer's error.
  When no attempt is left the poll ends with the deadline error. The result is the last
  \<^verbatim>\<open>userInfo\<close>, the poll's error and the index of the next call.
\<close>

fun pollUser :: "(nat \<Rightarrow> User \<times> error option) \<Rightarrow> nat \<Rightarrow> nat \<Rightarrow> (User \<times> error option) \<times> nat" where
  "pollUser srv 0 i =
     (case srv i of (userInfo, err) \<Rightarrow>
        (case err of
           None \<Rightarrow> ((userInfo, None), Suc i)
         | Some e \<Rightarrow>
             if strings_Contains (Error e) ''connect: connection refused''
             then ((userInfo, Some DeadlineExceeded), Suc i)
             else ((userInfo, Some e), Suc i)))"
| "pollUser srv (Suc t) i =
     (case srv i of (userInfo, err) \<Rightarrow>
        (case err of
           None \<Rightarrow> ((userInfo, None), Suc i)
         | Some e \<Rightarrow>
             if strings_Contains (Error e) ''connect: connection refused''
             then pollUser srv t (Suc i)
             else ((userInfo, Some e), Suc i)))"

subsection \<open>Nicknames\<close>

definition getClusterNicknameFromConfig :: "'u util_deps \<Rightarrow> Config \<Rightarrow> error + string" where
  "getClusterNicknameFromConfig D clientCfg =
     (case url_Parse D (Host clientCfg) of
        Inl err \<Rightarrow> Inl err
      | Inr u \<Rightarrow>
          (let hostPort = CanonicalAddr D u
           in Inr (strings_Replace hostPort (CHR ''.'') (CHR ''-''))))"

definition getUserPartOfNickname ::
  "'u util_deps \<Rightarrow> Config \<Rightarrow> world \<Rightarrow> (error + string) \<times> world" where
  "getUserPartOfNickname D clientCfg w =
     (case NewForConfig D clientCfg (files w) of
        Some err \<Rightarrow> (Inl err, w)
      | None \<Rightarrow>
          (case pollUser (answers w) (ticks D) (calls w) of
             ((userInfo, err), i) \<Rightarrow>
               (let w' = w\<lparr>calls := i\<rparr> in
                if IsNotFound err \<or> IsForbidden err then
                  (if length (BearerToken clientCfg) > 0
                     then (Inr (Name (userInfo\<lparr>Name := BearerToken clientCfg\<rparr>)), w')
                   else if length (Username clientCfg) > 0
                     then (Inr (Name (userInfo\<lparr>Name := Username clientCfg\<rparr>)), w')
                   else (Inr (Name userInfo), w'))
                else
                  (case err of
                     Some e \<Rightarrow> (Inl e, w')
                   | None \<Rightarrow> (Inr (Name userInfo), w')))))"

definition getUserNicknameFromConfig ::
  "'u util_deps \<Rightarrow> Config \<Rightarrow> world \<Rightarrow> (error + string) \<times> world" where
  "getUserNicknameFromConfig D clientCfg w =
     (case getUserPartOfNickname D clientCfg w of
        (Inl err, w') \<Rightarrow> (Inl err, w')
      | (Inr userPartOfNick, w') \<Rightarrow>
          (case getClusterNicknameFromConfig D clientCfg of
             Inl err \<Rightarrow> (Inl err, w')
           | Inr clusterNick \<Rightarrow> (Inr (userPartOfNick @ ''/'' @ clusterNick), w')))"

definition getContextNicknameFromConfig ::
  "'u util_deps \<Rightarrow> string \<Rightarrow> Config \<Rightarrow> world \<Rightarrow> (error + string) \<times> world" where
  "getContextNicknameFromConfig D namespace clientCfg w =
     (case getUserPartOfNickname D clientCfg w of
        (Inl err, w') \<Rightarrow> (Inl err, w')
      | (Inr userPartOfNick, w') \<Rightarrow>
          (case getClusterNicknameFromConfig D clientCfg of
             Inl err \<Rightarrow> (Inl err, w')
           | Inr clusterNick \<Rightarrow>
               (Inr (namespace @ ''/'' @ clusterNick @ ''/'' @ userPartOfNick), w')))"

subsection \<open>The kubeconfig record\<close>

text \<open>
  \<^verbatim>\<open>clientcmdapi.Config\<close>, \<^verbatim>\<open>AuthInfo\<close>, \<^verbatim>\<open>Cluster\<close> and \<^verbatim>\<open>Context\<close>
  (\<^verbatim>\<open>k8s.io/client-go/tools/clientcmd/api\<close>), restricted to the fields the code writes.
  The \<^verbatim>\<open>New...\<close> constructors give zero values and empty maps.
\<close>

record AuthInfo =
  ClientCertificate :: string
  ClientCertificateData :: bytes
  ClientKey :: string
  ClientKeyData :: bytes
  Token :: string

record Cluster =
  Server :: string
  InsecureSkipTLSVerify :: bool
  CertificateAuthority :: string
  CertificateAuthorityData :: bytes

record Context =
  Cluster :: string
  AuthInfo :: string
  Namespace :: string

record clientcmdapi_Config =
  Clusters :: "string \<rightharpoonup> Cluster"
  AuthInfos :: "string \<rightharpoonup> AuthInfo"
  Contexts :: "string \<rightharpoonup> Context"
  CurrentContext :: string

definition NewAuthInfo :: AuthInfo where
  "NewAuthInfo = \<lparr>ClientCertificate = '''', ClientCertificateData = [], ClientKey = '''',
     ClientKeyData = [], Token = ''''\<rparr>"

definition NewCluster :: Cluster where
  "NewCluster = \<lparr>Server = '''', InsecureSkipTLSVerify = False, CertificateAuthority = '''',
     CertificateAuthorityData = []\<rparr>"

definition NewContext :: Context where
  "NewContext = \<lparr>Cluster = '''', AuthInfo = '''', Namespace = ''''\<rparr>"

definition NewConfig :: clientcmdapi_Config where
  "NewConfig = \<lparr>Clusters = Map.empty, AuthInfos = Map.empty, Contexts = Map.empty,
     CurrentContext = ''''\<rparr>"

subsection \<open>createConfig\<close>

text \<open>The three blocks of \<^verbatim>\<open>createConfig\<close> that fill the entries, lines 114 to 138.\<close>

definition credentialsOf :: "Config \<Rightarrow> AuthInfo" where
  "credentialsOf clientCfg =
     (let credentials = NewAuthInfo;
          credentials = credentials\<lparr>Token := BearerToken clientCfg\<rparr>;
          credentials = credentials\<lparr>ClientCertificate :=
                          CertFile (TLSClientConfig clientCfg)\<rparr>;
          credentials =
            (if length (ClientCertificate credentials) = 0
             then credentials\<lparr>ClientCertificateData := CertData (TLSClientConfig clientCfg)\<rparr>
             else credentials);
          credentials = credentials\<lparr>ClientKey := KeyFile (TLSClientConfig clientCfg)\<rparr>;
          credentials =
            (if length (ClientKey credentials) = 0
             then credentials\<lparr>ClientKeyData := KeyData (TLSClientConfig clientCfg)\<rparr>
             else credentials)
      in credentials)"

definition clusterOf :: "Config \<Rightarrow> Cluster" where
  "clusterOf clientCfg =
     (let cluster = NewCluster;
          cluster = cluster\<lparr>Server := Host clientCfg\<rparr>;
          cluster = cluster\<lparr>CertificateAuthority := CAFile (TLSClientConfig clientCfg)\<rparr>;
          cluster =
            (if length (CertificateAuthority cluster) = 0
             then cluster\<lparr>CertificateAuthorityData := CAData (TLSClientConfig clientCfg)\<rparr>
             else cluster);
          cluster = cluster\<lparr>InsecureSkipTLSVerify := Insecure (TLSClientConfig clientCfg)\<rparr>
      in cluster)"

definition contextOf :: "string \<Rightarrow> string \<Rightarrow> string \<Rightarrow> Context" where
  "contextOf clusterNick userNick namespace =
     (let context = NewContext;
          context = context\<lparr>Cluster := clusterNick\<rparr>;
          context = context\<lparr>AuthInfo := userNick\<rparr>;
          context = context\<lparr>Namespace := namespace\<rparr>
      in context)"

definition createConfig ::
  "'u util_deps \<Rightarrow> string \<Rightarrow> Config \<Rightarrow> world \<Rightarrow> (error + clientcmdapi_Config) \<times> world" where
  "createConfig D namespace clientCfg w =
     (case getClusterNicknameFromConfig D clientCfg of
        Inl err \<Rightarrow> (Inl err, w)
      | Inr clusterNick \<Rightarrow>
     (case getUserNicknameFromConfig D clientCfg w of
        (Inl err, w1) \<Rightarrow> (Inl err, w1)
      | (Inr userNick, w1) \<Rightarrow>
     (case getContextNicknameFromConfig D namespace clientCfg w1 of
        (Inl err, w2) \<Rightarrow> (Inl err, w2)
      | (Inr contextNick, w2) \<Rightarrow>
          (let config = NewConfig;
               config = config\<lparr>AuthInfos := (AuthInfos config)(userNick \<mapsto> credentialsOf clientCfg)\<rparr>;
               config = config\<lparr>Clusters := (Clusters config)(clusterNick \<mapsto> clusterOf clientCfg)\<rparr>;
               config = config\<lparr>Contexts := (Contexts config)
                          (contextNick \<mapsto> contextOf clusterNick userNick namespace)\<rparr>;
               config = config\<lparr>CurrentContext := contextNick\<rparr>
           in (Inr config, w2)))))"

text \<open>
  Sample collaborators for concrete runs: cluster data is a string, the file system a map
  from file names to contents. \<open>healthy\<close> serialises and writes; \<open>brokenDisk\<close>
  serialises and then fails to write.
\<close>

definition healthy :: "(nat, string, string \<rightharpoonup> bytes) storage_deps" where
  "healthy = \<lparr>Join = (\<lambda>d f. d @ ''/'' @ f),
     MarshalIndent = (\<lambda>cd p i. Inr (map of_char cd)),
     WriteFile = (\<lambda>f b m fs. (None, fs(f \<mapsto> b))),
     WasMasterNodeUpdated = (\<lambda>ivs. if ivs = [] then ''N'' else ''Y''),
     CollectClusterData = (\<lambda>c m. ''masterNodesUpdated='' @ m)\<rparr>"

definition brokenDisk :: "(nat, string, string \<rightharpoonup> bytes) storage_deps" where
  "brokenDisk =
     healthy\<lparr>WriteFile := (\<lambda>f b m fs. (Some (OtherError ''permission denied''), fs))\<rparr>"

text \<open>
  Sample collaborators for concrete runs. A parsed URL is a pair of scheme and host; the
  sample parser knows two hosts and rejects everything else; a host without a port gets
  the port of \<^verbatim>\<open>https\<close>. The sample client constructor refuses what the transport of
  the client library refuses on the fields kept here: a certificate authority together
  with the insecure flag, and a certificate authority, certificate or key file that is
  named, not overridden by inline data, and absent from disk. Two further attempts fit
  into the poll's timeout.
\<close>

definition missingFile :: "(string \<rightharpoonup> bytes) \<Rightarrow> bytes \<Rightarrow> string \<Rightarrow> bool" where
  "missingFile fs inline path = (length inline = 0 \<and> 0 < length path \<and> fs path = None)"

definition sampleNewForConfig :: "Config \<Rightarrow> (string \<rightharpoonup> bytes) \<Rightarrow> error option" where
  "sampleNewForConfig c fs =
     (let t = TLSClientConfig c in
      if (0 < length (CAData t) \<or> 0 < length (CAFile t)) \<and> Insecure t
        then Some (OtherError
          ''specifying a root certificates file with the insecure flag is not allowed'')
      else if missingFile fs (CAData t) (CAFile t)
        then Some (OtherError (''open '' @ CAFile t @ '': no such file or directory''))
      else if missingFile fs (CertData t) (CertFile t)
        then Some (OtherError (''open '' @ CertFile t @ '': no such file or directory''))
      else if missingFile fs (KeyData t) (KeyFile t)
        then Some (OtherError (''open '' @ KeyFile t @ '': no such file or directory''))
      else None)"

definition sampleDeps :: "(string \<times> string) util_deps" where
  "sampleDeps =
     \<lparr>url_Parse = (\<lambda>s.
          if s = ''https://api.example.com'' then Inr (''https'', ''api.example.com'')
          else if s = ''https://10.0.0.1:6443'' then Inr (''https'', ''10.0.0.1:6443'')
          else Inl (OtherError (''parse '' @ s @ '': invalid URI''))),
       CanonicalAddr = (\<lambda>u. if CHR '':'' \<in> set (snd u) then snd u else snd u @ '':443''),
       NewForConfig = sampleNewForConfig,
       ticks = Suc (Suc 0)\<rparr>"

text \<open>
  A configuration that authenticates with a bearer token and names no certificate
  material: the client builds from it without reading a file.
\<close>

definition sampleCfg :: Config where
  "sampleCfg =
     \<lparr>Host = ''https://api.example.com'', Username = '''', BearerToken = ''sha256~t0k'',
       TLSClientConfig =
         \<lparr>Insecure = True, CertFile = '''', KeyFile = '''', CAFile = '''',
           CertData = [], KeyData = [], CAData = []\<rparr>\<rparr>"

text \<open>
  Four servers, on a disk without files: one knows the caller as alice, one as bob, one
  refuses the first connection and then knows the caller as alice, and one knows the
  caller as alice at the first request and as bob from the second on.
\<close>

definition aliceWorld :: world where
  "aliceWorld =
     \<lparr>answers = (\<lambda>i. (\<lparr>Name = ''alice''\<rparr>, None)), calls = 0, files = Map.empty\<rparr>"

definition bobWorld :: world where
  "bobWorld =
     \<lparr>answers = (\<lambda>i. (\<lparr>Name = ''bob''\<rparr>, None)), calls = 0, files = Map.empty\<rparr>"

definition flakyWorld :: world where
  "flakyWorld =
     \<lparr>answers = (\<lambda>i.
          if i = 0
          then (\<lparr>Name = ''''\<rparr>,
                Some (OtherError ''dial tcp 192.0.2.10:443: connect: connection refused''))
          else (\<lparr>Name = ''alice''\<rparr>, None)),
       calls = 0, files = Map.empty\<rparr>"

definition renamedWorld :: world where
  "renamedWorld =
     \<lparr>answers = (\<lambda>i. if i = 0 then (\<lparr>Name = ''alice''\<rparr>, None) else (\<lparr>Name = ''bob''\<rparr>, None)),
       calls = 0, files = Map.empty\<rparr>"

text \<open>
  A server that has already been asked five times, knows the caller as alice at the next
  two requests and as bob afterwards.
\<close>

definition movedWorld :: world where
  "movedWorld =
     \<lparr>answers = (\<lambda>i. if i < 7 then (\<lparr>Name = ''alice''\<rparr>, None) else (\<lparr>Name = ''bob''\<rparr>, None)),
       calls = 5, files = Map.empty\<rparr>"
section \<open>Properties of the cluster-info serializer\<close>

lemma CleanupTimes_unchanged:
  "CleanupTimes n w ctx = (w, replicate n None)"
  by (induction n) (simp_all add: Cleanup_def)

text \<open>
  C4. \<^verbatim>\<open>Cleanup\<close> of the cluster-info serializer is idempotent: whatever the observer's
  state and however many times in a row it is invoked, every invocation returns no error
  and the state stays as it was; two invocations are the same as one.
\<close>

theorem Cleanup_idempotent:
  "CleanupTimes n w ctx = (w, replicate n None)
   \<and> Cleanup w ctx = (w, None)
   \<and> Cleanup (fst (Cleanup w ctx)) ctx = Cleanup w ctx"
  by (simp add: CleanupTimes_unchanged Cleanup_def)

text \<open>
  C5. For every input stream, resource snapshot and time window,
  \<^verbatim>\<open>ConstructComputedIntervals\<close> of the cluster-info serializer returns no error and
  the empty interval list, so nothing of its input is echoed; the observer is unchanged.
\<close>

theorem ConstructComputedIntervals_empty:
  "ConstructComputedIntervals w ctx startingIntervals recordedResources beginning end'
     = (w, ([], None))
   \<and> set (fst (snd (ConstructComputedIntervals w ctx startingIntervals recordedResources
                      beginning end'))) \<inter> set startingIntervals = {}"
  by (simp add: ConstructComputedIntervals_def)

text \<open>
  C10. \<^verbatim>\<open>StartCollection\<close>, \<^verbatim>\<open>CollectData\<close>, \<^verbatim>\<open>ConstructComputedIntervals\<close>,
  \<^verbatim>\<open>EvaluateTestsFromConstructedIntervals\<close> and \<^verbatim>\<open>Cleanup\<close> return a nil error and
  empty intervals and results on every input. \<^verbatim>\<open>WriteContentToStorage\<close> is the only
  phase that can return an error, and an error it returns is the one of the JSON
  serialisation or, when that succeeded, the one of the file write.
\<close>

theorem only_WriteContentToStorage_fails:
  fixes D :: "('iv, 'cd, 'fs) storage_deps"
    and startingIntervals finalIntervals :: "'iv list"
  shows
  "snd (StartCollection w ctx cfg recorder) = None
   \<and> snd (CollectData w ctx beginning end') = (([] :: 'iv list), ([] :: 'ju list), None)
   \<and> snd (ConstructComputedIntervals w ctx startingIntervals recordedResources beginning end')
       = ([], None)
   \<and> snd (EvaluateTestsFromConstructedIntervals w ctx finalIntervals)
       = (([] :: 'ju list), None)
   \<and> snd (Cleanup w ctx) = None
   \<and> (\<forall>err. fst (snd (WriteContentToStorage D w ctx storageDir timeSuffix finalIntervals
                         finalResourceState fs)) = Some err \<longrightarrow>
        (let filename = Join D storageDir (''cluster-data'' @ timeSuffix @ ''.json'');
             clusterData = CollectClusterData D (adminRESTConfig w)
                             (WasMasterNodeUpdated D finalIntervals)
         in MarshalIndent D clusterData '''' ''    '' = Inl err
            \<or> (\<exists>jsonContent. MarshalIndent D clusterData '''' ''    '' = Inr jsonContent
                  \<and> fst (WriteFile D filename jsonContent 420 fs) = Some err)))"
  by (auto simp: StartCollection_def CollectData_def ConstructComputedIntervals_def
        EvaluateTestsFromConstructedIntervals_def Cleanup_def WriteContentToStorage_def
        writeClusterData_def collectClusterData_def Let_def
      split: sum.splits)

theorem only_WriteContentToStorage_fails_witness:
  "fst (snd (WriteContentToStorage brokenDisk NewClusterInfoSerializer () ''/logs'' ''_1''
               [] () Map.empty)) = Some (OtherError ''permission denied'')
   \<and> MarshalIndent brokenDisk
        (CollectClusterData brokenDisk (adminRESTConfig NewClusterInfoSerializer)
           (WasMasterNodeUpdated brokenDisk [])) '''' ''    ''
       \<noteq> Inl (OtherError ''permission denied'')
   \<and> (\<exists>jsonContent.
         fst (WriteFile brokenDisk
                (Join brokenDisk ''/logs'' (''cluster-data'' @ ''_1'' @ ''.json''))
                jsonContent 420 Map.empty) = Some (OtherError ''permission denied''))"
  using only_WriteContentToStorage_fails
    [where D = brokenDisk and w = NewClusterInfoSerializer and ctx = "()"
       and storageDir = "''/logs''" and timeSuffix = "''_1''" and finalIntervals = "[]"
       and finalResourceState = "()" and fs = Map.empty]
  by (simp add: WriteContentToStorage_def writeClusterData_def collectClusterData_def
        brokenDisk_def healthy_def NewClusterInfoSerializer_def)

section \<open>Properties of the registry\<close>

lemma dom_getInvariantTests: "dom (getInvariantTests r) = set (names r)"
  by (simp add: getInvariantTests_def names_def dom_map_of_conv_image_fst image_image)

lemma AddInvariant_present:
  "n \<in> set (names r) \<Longrightarrow> AddInvariant n jira test r = Inl (DuplicateNameError n)"
  using dom_getInvariantTests [of r] by (auto simp: AddInvariant_def)

lemma AddInvariant_fresh:
  "n \<notin> set (names r) \<Longrightarrow>
   AddInvariant n jira test r =
     Inr (r @ [\<lparr>name = n, jiraComponent = jira, invariantTest = test\<rparr>])"
  using dom_getInvariantTests [of r] by (auto simp: AddInvariant_def)

lemma getInvariantTests_snoc:
  "name v \<notin> set (names r) \<Longrightarrow>
   getInvariantTests (r @ [v]) = (getInvariantTests r)(name v \<mapsto> v)"
proof (rule ext)
  fix k
  assume fresh: "name v \<notin> set (names r)"
  then have "getInvariantTests r (name v) = None"
    using dom_getInvariantTests [of r] by blast
  then show "getInvariantTests (r @ [v]) k = ((getInvariantTests r)(name v \<mapsto> v)) k"
    by (auto simp: getInvariantTests_def map_add_def split: option.splits)
qed

lemma addItemsOrDie_disjoint:
  "distinct (names child) \<Longrightarrow> set (names child) \<inter> set (names r) = {} \<Longrightarrow>
   addItemsOrDie child r = Inr (r @ child)"
proof (induction child arbitrary: r)
  case Nil
  then show ?case by simp
next
  case (Cons v vs)
  have fresh: "name v \<notin> set (names r)"
    using Cons.prems(2) by (auto simp: names_def)
  have step: "AddInvariantOrDie (name v) (jiraComponent v) (invariantTest v) r = Inr (r @ [v])"
    using AddInvariant_fresh [OF fresh] by (simp add: AddInvariantOrDie_def)
  have "distinct (names vs)" and "set (names vs) \<inter> set (names (r @ [v])) = {}"
    using Cons.prems by (auto simp: names_def)
  then have "addItemsOrDie vs (r @ [v]) = Inr ((r @ [v]) @ vs)"
    by (rule Cons.IH)
  with step show ?case by simp
qed

lemma addItemsOrDie_collision:
  "set (names child) \<inter> set (names r) \<noteq> {} \<Longrightarrow>
   \<exists>n \<in> set (names child). addItemsOrDie child r = Inl (DuplicateNameError n)"
proof (induction child arbitrary: r)
  case Nil
  then show ?case by (simp add: names_def)
next
  case (Cons v vs)
  show ?case
  proof (cases "name v \<in> set (names r)")
    case True
    then have "AddInvariantOrDie (name v) (jiraComponent v) (invariantTest v) r
                 = Inl (DuplicateNameError (name v))"
      by (simp add: AddInvariantOrDie_def AddInvariant_present)
    then show ?thesis by (simp add: names_def)
  next
    case False
    then have step:
      "AddInvariantOrDie (name v) (jiraComponent v) (invariantTest v) r = Inr (r @ [v])"
      using AddInvariant_fresh [OF False] by (simp add: AddInvariantOrDie_def)
    have "set (names vs) \<inter> set (names (r @ [v])) \<noteq> {}"
      using Cons.prems False by (auto simp: names_def)
    then obtain n where "n \<in> set (names vs)"
      and "addItemsOrDie vs (r @ [v]) = Inl (DuplicateNameError n)"
      using Cons.IH by blast
    with step show ?thesis by (auto simp: names_def)
  qed
qed

lemma getInvariantTests_append:
  "getInvariantTests (r @ child) = getInvariantTests child ++ getInvariantTests r"
  by (simp add: getInvariantTests_def)

text \<open>
  C1. Registering an observer under a name already present in the registry fails with
  the duplicate-name error, whatever the ownership tag and the observer. Registering
  under a fresh name succeeds and stores the binding, and from then on every further
  registration under that name fails, with the same observer or with another one.
\<close>

theorem AddInvariant_duplicate_name:
  "(n \<in> set (names r) \<longrightarrow> AddInvariant n jira test r = Inl (DuplicateNameError n))
   \<and> (n \<notin> set (names r) \<longrightarrow>
        (\<exists>r'. AddInvariant n jira test r = Inr r'
           \<and> getInvariantTests r' =
               (getInvariantTests r)
                 (n \<mapsto> \<lparr>name = n, jiraComponent = jira, invariantTest = test\<rparr>)
           \<and> (\<forall>jira' test'. AddInvariant n jira' test' r' = Inl (DuplicateNameError n))))"
proof (intro conjI impI)
  assume "n \<in> set (names r)"
  then show "AddInvariant n jira test r = Inl (DuplicateNameError n)"
    by (rule AddInvariant_present)
next
  assume fresh: "n \<notin> set (names r)"
  let ?v = "\<lparr>name = n, jiraComponent = jira, invariantTest = test\<rparr>"
  have "AddInvariant n jira test r = Inr (r @ [?v])"
    using fresh by (rule AddInvariant_fresh)
  moreover have "getInvariantTests (r @ [?v]) = (getInvariantTests r)(n \<mapsto> ?v)"
    using getInvariantTests_snoc [of ?v r] fresh by simp
  moreover have "\<forall>jira' test'. AddInvariant n jira' test' (r @ [?v]) = Inl (DuplicateNameError n)"
    by (simp add: AddInvariant_present names_def)
  ultimately show "\<exists>r'. AddInvariant n jira test r = Inr r'
      \<and> getInvariantTests r' = (getInvariantTests r)(n \<mapsto> ?v)
      \<and> (\<forall>jira' test'. AddInvariant n jira' test' r' = Inl (DuplicateNameError n))"
    by blast
qed

theorem AddInvariant_duplicate_name_witness:
  "AddInvariant ''audit'' ''kube-apiserver'' (1::nat) NewRegistry
     = Inr [\<lparr>name = ''audit'', jiraComponent = ''kube-apiserver'', invariantTest = 1\<rparr>]
   \<and> ''audit'' \<in> set (names
        [\<lparr>name = ''audit'', jiraComponent = ''kube-apiserver'', invariantTest = (1::nat)\<rparr>])
   \<and> AddInvariant ''audit'' ''kube-apiserver'' (1::nat)
        [\<lparr>name = ''audit'', jiraComponent = ''kube-apiserver'', invariantTest = 1\<rparr>]
     = Inl (DuplicateNameError ''audit'')
   \<and> AddInvariant ''audit'' ''etcd'' (2::nat)
        [\<lparr>name = ''audit'', jiraComponent = ''kube-apiserver'', invariantTest = 1\<rparr>]
     = Inl (DuplicateNameError ''audit'')"
  using
    AddInvariant_duplicate_name [of "''audit''" NewRegistry "''kube-apiserver''" "1::nat"]
    AddInvariant_duplicate_name [of "''audit''"
      "[\<lparr>name = ''audit'', jiraComponent = ''kube-apiserver'', invariantTest = (1::nat)\<rparr>]"
      "''kube-apiserver''" "1::nat"]
    AddInvariant_duplicate_name [of "''audit''"
      "[\<lparr>name = ''audit'', jiraComponent = ''kube-apiserver'', invariantTest = (1::nat)\<rparr>]"
      "''etcd''" "2::nat"]
  by (simp add: names_def NewRegistry_def AddInvariant_def getInvariantTests_def)

text \<open>
  C2. Composing a child registry into a parent fails with the duplicate-name error, as
  the result of the composition itself and so before any phase method runs, whenever a
  name of the child is already present in the parent. When the child's names are
  distinct and none is in the parent, the composition succeeds and the parent then
  holds its own entries and all of the child's.
\<close>

theorem AddRegistryOrDie_merges_or_fails:
  "(set (names child) \<inter> set (names r) \<noteq> {} \<longrightarrow>
      (\<exists>n \<in> set (names child). AddRegistryOrDie child r = Inl (DuplicateNameError n)))
   \<and> (distinct (names child) \<and> set (names child) \<inter> set (names r) = {} \<longrightarrow>
        AddRegistryOrDie child r = Inr (r @ child)
        \<and> getInvariantTests (r @ child) = getInvariantTests child ++ getInvariantTests r
        \<and> dom (getInvariantTests (r @ child))
            = dom (getInvariantTests r) \<union> dom (getInvariantTests child))"
proof (intro conjI impI)
  assume "set (names child) \<inter> set (names r) \<noteq> {}"
  then show "\<exists>n \<in> set (names child). AddRegistryOrDie child r = Inl (DuplicateNameError n)"
    unfolding AddRegistryOrDie_def by (rule addItemsOrDie_collision)
next
  assume "distinct (names child) \<and> set (names child) \<inter> set (names r) = {}"
  then show "AddRegistryOrDie child r = Inr (r @ child)"
    unfolding AddRegistryOrDie_def by (simp add: addItemsOrDie_disjoint)
next
  show "getInvariantTests (r @ child) = getInvariantTests child ++ getInvariantTests r"
    by (rule getInvariantTests_append)
next
  show "dom (getInvariantTests (r @ child))
          = dom (getInvariantTests r) \<union> dom (getInvariantTests child)"
    by (auto simp: dom_getInvariantTests names_def)
qed

theorem AddRegistryOrDie_merges_or_fails_witness:
  "set (names [\<lparr>name = ''audit'', jiraComponent = ''etcd'', invariantTest = (2::nat)\<rparr>])
     \<inter> set (names [\<lparr>name = ''audit'', jiraComponent = ''kube-apiserver'', invariantTest = 1\<rparr>])
     \<noteq> {}
   \<and> AddRegistryOrDie
        [\<lparr>name = ''audit'', jiraComponent = ''etcd'', invariantTest = (2::nat)\<rparr>]
        [\<lparr>name = ''audit'', jiraComponent = ''kube-apiserver'', invariantTest = 1\<rparr>]
      = Inl (DuplicateNameError ''audit'')
   \<and> distinct (names [\<lparr>name = ''nodes'', jiraComponent = ''etcd'', invariantTest = (2::nat)\<rparr>])
   \<and> AddRegistryOrDie
        [\<lparr>name = ''nodes'', jiraComponent = ''etcd'', invariantTest = (2::nat)\<rparr>]
        [\<lparr>name = ''audit'', jiraComponent = ''kube-apiserver'', invariantTest = 1\<rparr>]
      = Inr [\<lparr>name = ''audit'', jiraComponent = ''kube-apiserver'', invariantTest = 1\<rparr>,
             \<lparr>name = ''nodes'', jiraComponent = ''etcd'', invariantTest = 2\<rparr>]"
  using
    AddRegistryOrDie_merges_or_fails
      [of "[\<lparr>name = ''audit'', jiraComponent = ''etcd'', invariantTest = (2::nat)\<rparr>]"
          "[\<lparr>name = ''audit'', jiraComponent = ''kube-apiserver'', invariantTest = 1\<rparr>]"]
    AddRegistryOrDie_merges_or_fails
      [of "[\<lparr>name = ''nodes'', jiraComponent = ''etcd'', invariantTest = (2::nat)\<rparr>]"
          "[\<lparr>name = ''audit'', jiraComponent = ''kube-apiserver'', invariantTest = 1\<rparr>]"]
  by (simp add: names_def)

section \<open>The serializer's method set against the interface\<close>

text \<open>
  C3. The claim is that the observer returned by \<^verbatim>\<open>NewClusterInfoSerializer\<close> has the
  \<^verbatim>\<open>CollectData\<close> method of the \<^verbatim>\<open>InvariantTest\<close> interface, which takes the context, a
  storage directory and the two times. In \<^verbatim>\<open>invariant.go\<close> the method takes the context
  and the two times only: the storage directory is missing, the signatures differ, and
  the type does not satisfy the interface it is returned as.
\<close>

theorem clusterInfoSerializer_CollectData_lacks_storageDir:
  "map_of InvariantTest ''CollectData''
     = Some ([GoContext, GoString, GoTime, GoTime], [GoIntervals, GoJUnitTestCases, GoError])
   \<and> map_of clusterInfoSerializer_methods ''CollectData''
     = Some ([GoContext, GoTime, GoTime], [GoIntervals, GoJUnitTestCases, GoError])
   \<and> \<not> implements clusterInfoSerializer_methods InvariantTest"
  by (simp add: InvariantTest_def clusterInfoSerializer_methods_def implements_def)

section \<open>Properties of the kubeconfig builder\<close>

lemma strings_Replace_length: "length (strings_Replace s old new) = length s"
  by (simp add: strings_Replace_def)

lemma strings_Replace_nth:
  "i < length s \<Longrightarrow> strings_Replace s old new ! i = (if s ! i = old then new else s ! i)"
  by (simp add: strings_Replace_def)

lemma strings_Replace_absent:
  "old \<noteq> new \<Longrightarrow> old \<notin> set (strings_Replace s old new)"
  by (auto simp: strings_Replace_def)

text \<open>
  C9. When the host of the client configuration parses as a URL,
  \<^verbatim>\<open>getClusterNicknameFromConfig\<close> succeeds and returns the canonical host:port of that
  URL with every dot replaced by a dash, position by position; the nickname contains no
  dot.
\<close>

theorem getClusterNicknameFromConfig_canonical:
  assumes "url_Parse D (Host clientCfg) = Inr u"
  shows "\<exists>nick. getClusterNicknameFromConfig D clientCfg = Inr nick
           \<and> length nick = length (CanonicalAddr D u)
           \<and> (\<forall>i < length nick.
                 nick ! i = (if CanonicalAddr D u ! i = CHR ''.'' then CHR ''-''
                             else CanonicalAddr D u ! i))
           \<and> CHR ''.'' \<notin> set nick"
  using assms
  by (simp add: getClusterNicknameFromConfig_def strings_Replace_length strings_Replace_nth
        strings_Replace_absent)

theorem getClusterNicknameFromConfig_canonical_witness:
  "url_Parse sampleDeps (Host sampleCfg) = Inr (''https'', ''api.example.com'')
   \<and> getClusterNicknameFromConfig sampleDeps sampleCfg = Inr ''api-example-com:443''
   \<and> CanonicalAddr sampleDeps (''https'', ''api.example.com'') = ''api.example.com:443''"
  using getClusterNicknameFromConfig_canonical
    [of sampleDeps sampleCfg "(''https'', ''api.example.com'')"]
  by (simp add: getClusterNicknameFromConfig_def sampleDeps_def sampleCfg_def
        strings_Replace_def)

lemma createConfig_Inr:
  assumes "fst (createConfig D namespace clientCfg w) = Inr config"
  obtains clusterNick userPart1 w1 userPart2 w2 where
    "getClusterNicknameFromConfig D clientCfg = Inr clusterNick"
    "getUserPartOfNickname D clientCfg w = (Inr userPart1, w1)"
    "getUserPartOfNickname D clientCfg w1 = (Inr userPart2, w2)"
    "config =
       \<lparr>Clusters = [clusterNick \<mapsto> clusterOf clientCfg],
        AuthInfos = [userPart1 @ ''/'' @ clusterNick \<mapsto> credentialsOf clientCfg],
        Contexts = [namespace @ ''/'' @ clusterNick @ ''/'' @ userPart2 \<mapsto>
                      contextOf clusterNick (userPart1 @ ''/'' @ clusterNick) namespace],
        CurrentContext = namespace @ ''/'' @ clusterNick @ ''/'' @ userPart2\<rparr>"
  using assms
  by (auto simp: createConfig_def getUserNicknameFromConfig_def
        getContextNicknameFromConfig_def NewConfig_def Let_def
      split: sum.splits prod.splits)

lemmas sample_run =
  createConfig_def getClusterNicknameFromConfig_def getUserNicknameFromConfig_def
  getContextNicknameFromConfig_def getUserPartOfNickname_def sampleDeps_def sampleCfg_def
  sampleNewForConfig_def missingFile_def strings_Replace_def NewConfig_def Let_def

text \<open>
  C7. When \<^verbatim>\<open>createConfig\<close> succeeds, the record has one cluster entry and one
  auth-info entry that carry the connection parameters: the server is the host, the
  insecure flag is the configuration's, the token is the bearer token, and the client
  certificate, the client key and the certificate authority are the configured file
  paths, the inline data being copied only where the file path is empty.
\<close>

theorem createConfig_connection_parameters:
  assumes "fst (createConfig D namespace clientCfg w) = Inr config"
  shows "\<exists>clusterNick userNick cluster credentials.
           Clusters config = [clusterNick \<mapsto> cluster]
         \<and> AuthInfos config = [userNick \<mapsto> credentials]
         \<and> Server cluster = Host clientCfg
         \<and> InsecureSkipTLSVerify cluster = Insecure (TLSClientConfig clientCfg)
         \<and> Token credentials = BearerToken clientCfg
         \<and> ClientCertificate credentials = CertFile (TLSClientConfig clientCfg)
         \<and> ClientCertificateData credentials =
             (if CertFile (TLSClientConfig clientCfg) = [] then CertData (TLSClientConfig clientCfg)
              else [])
         \<and> ClientKey credentials = KeyFile (TLSClientConfig clientCfg)
         \<and> ClientKeyData credentials =
             (if KeyFile (TLSClientConfig clientCfg) = [] then KeyData (TLSClientConfig clientCfg)
              else [])
         \<and> CertificateAuthority cluster = CAFile (TLSClientConfig clientCfg)
         \<and> CertificateAuthorityData cluster =
             (if CAFile (TLSClientConfig clientCfg) = [] then CAData (TLSClientConfig clientCfg)
              else [])"
proof -
  from assms obtain clusterNick userPart1 where
    "Clusters config = [clusterNick \<mapsto> clusterOf clientCfg]"
    "AuthInfos config = [userPart1 @ ''/'' @ clusterNick \<mapsto> credentialsOf clientCfg]"
    by (rule createConfig_Inr) simp
  then show ?thesis
    by (intro exI [of _ clusterNick] exI [of _ "userPart1 @ ''/'' @ clusterNick"]
          exI [of _ "clusterOf clientCfg"] exI [of _ "credentialsOf clientCfg"])
       (simp add: clusterOf_def credentialsOf_def NewCluster_def NewAuthInfo_def Let_def)
qed

theorem createConfig_connection_parameters_witness:
  "fst (createConfig sampleDeps ''e2e'' sampleCfg aliceWorld)
     = Inr \<lparr>Clusters = [''api-example-com:443'' \<mapsto>
               \<lparr>Server = ''https://api.example.com'', InsecureSkipTLSVerify = True,
                 CertificateAuthority = '''', CertificateAuthorityData = []\<rparr>],
            AuthInfos = [''alice/api-example-com:443'' \<mapsto>
               \<lparr>ClientCertificate = '''', ClientCertificateData = [],
                 ClientKey = '''', ClientKeyData = [],
                 Token = ''sha256~t0k''\<rparr>],
            Contexts = [''e2e/api-example-com:443/alice'' \<mapsto>
               \<lparr>Cluster = ''api-example-com:443'', AuthInfo = ''alice/api-example-com:443'',
                 Namespace = ''e2e''\<rparr>],
            CurrentContext = ''e2e/api-example-com:443/alice''\<rparr>"
  using createConfig_connection_parameters [of sampleDeps "''e2e''" sampleCfg aliceWorld]
  by (simp add: sample_run aliceWorld_def clusterOf_def credentialsOf_def contextOf_def
        NewCluster_def NewAuthInfo_def NewContext_def)

text \<open>
  C8, as amended. When \<^verbatim>\<open>createConfig\<close> succeeds, the record holds exactly one
  cluster entry, one auth-info entry and one context entry; the context refers to the
  cluster and the auth-info by the keys they are stored under; and \<^verbatim>\<open>CurrentContext\<close> is
  the key of the context. The auth-info entry is stored under the user nickname, which
  is the user part returned by the first user lookup, a slash and the cluster nickname.
  The context is stored under namespace, cluster nickname and the user part returned by
  the second user lookup, joined by slashes. The two user parts come from two separate
  requests to the server and need not be equal.
\<close>

theorem createConfig_consistent:
  assumes "fst (createConfig D namespace clientCfg w) = Inr config"
  shows "\<exists>clusterNick userPart1 userPart2 userNick cluster credentials context.
           getClusterNicknameFromConfig D clientCfg = Inr clusterNick
         \<and> fst (getUserPartOfNickname D clientCfg w) = Inr userPart1
         \<and> fst (getUserPartOfNickname D clientCfg (snd (getUserPartOfNickname D clientCfg w)))
             = Inr userPart2
         \<and> userNick = userPart1 @ ''/'' @ clusterNick
         \<and> Clusters config = [clusterNick \<mapsto> cluster]
         \<and> AuthInfos config = [userNick \<mapsto> credentials]
         \<and> Contexts config = [CurrentContext config \<mapsto> context]
         \<and> Cluster context = clusterNick
         \<and> AuthInfo context = userNick
         \<and> Namespace context = namespace
         \<and> CurrentContext config = namespace @ ''/'' @ clusterNick @ ''/'' @ userPart2"
proof -
  from assms obtain clusterNick userPart1 w1 userPart2 w2 where
    "getClusterNicknameFromConfig D clientCfg = Inr clusterNick"
    "getUserPartOfNickname D clientCfg w = (Inr userPart1, w1)"
    "getUserPartOfNickname D clientCfg w1 = (Inr userPart2, w2)"
    "config =
       \<lparr>Clusters = [clusterNick \<mapsto> clusterOf clientCfg],
        AuthInfos = [userPart1 @ ''/'' @ clusterNick \<mapsto> credentialsOf clientCfg],
        Contexts = [namespace @ ''/'' @ clusterNick @ ''/'' @ userPart2 \<mapsto>
                      contextOf clusterNick (userPart1 @ ''/'' @ clusterNick) namespace],
        CurrentContext = namespace @ ''/'' @ clusterNick @ ''/'' @ userPart2\<rparr>"
    by (rule createConfig_Inr)
  then show ?thesis
    by (intro exI [of _ clusterNick] exI [of _ userPart1] exI [of _ userPart2]
          exI [of _ "userPart1 @ ''/'' @ clusterNick"]
          exI [of _ "clusterOf clientCfg"] exI [of _ "credentialsOf clientCfg"]
          exI [of _ "contextOf clusterNick (userPart1 @ ''/'' @ clusterNick) namespace"])
       (simp add: contextOf_def NewContext_def Let_def)
qed

theorem createConfig_consistent_witness:
  "\<not> isl (fst (createConfig sampleDeps ''e2e'' sampleCfg aliceWorld))
   \<and> CurrentContext (projr (fst (createConfig sampleDeps ''e2e'' sampleCfg aliceWorld)))
       = ''e2e'' @ ''/'' @ ''api-example-com:443'' @ ''/'' @ ''alice''
   \<and> getClusterNicknameFromConfig sampleDeps sampleCfg = Inr ''api-example-com:443''
   \<and> fst (getUserPartOfNickname sampleDeps sampleCfg aliceWorld) = Inr ''alice''
   \<and> \<not> isl (fst (createConfig sampleDeps ''e2e'' sampleCfg renamedWorld))
   \<and> fst (getUserPartOfNickname sampleDeps sampleCfg renamedWorld) = Inr ''alice''
   \<and> fst (getUserPartOfNickname sampleDeps sampleCfg
             (snd (getUserPartOfNickname sampleDeps sampleCfg renamedWorld))) = Inr ''bob''
   \<and> dom (AuthInfos (projr (fst (createConfig sampleDeps ''e2e'' sampleCfg renamedWorld))))
       = {''alice/api-example-com:443''}
   \<and> CurrentContext (projr (fst (createConfig sampleDeps ''e2e'' sampleCfg renamedWorld)))
       = ''e2e/api-example-com:443/bob''"
  using createConfig_consistent [of sampleDeps "''e2e''" sampleCfg aliceWorld]
    createConfig_consistent [of sampleDeps "''e2e''" sampleCfg renamedWorld]
  by (simp add: sample_run aliceWorld_def renamedWorld_def)

text \<open>
  C8, as stated, fails: with the server knowing the caller as alice, the auth-info entry
  is stored under the user nickname \<open>alice/api-example-com:443\<close>, and
  \<^verbatim>\<open>CurrentContext\<close> is not namespace, cluster nickname and that user nickname joined by
  slashes.
\<close>

theorem CurrentContext_user_nickname_counterexample:
  "\<not> isl (fst (createConfig sampleDeps ''e2e'' sampleCfg aliceWorld))
   \<and> getClusterNicknameFromConfig sampleDeps sampleCfg = Inr ''api-example-com:443''
   \<and> fst (getUserNicknameFromConfig sampleDeps sampleCfg aliceWorld)
       = Inr ''alice/api-example-com:443''
   \<and> dom (AuthInfos (projr (fst (createConfig sampleDeps ''e2e'' sampleCfg aliceWorld))))
       = {''alice/api-example-com:443''}
   \<and> CurrentContext (projr (fst (createConfig sampleDeps ''e2e'' sampleCfg aliceWorld)))
       \<noteq> ''e2e'' @ ''/'' @ ''api-example-com:443'' @ ''/'' @ ''alice/api-example-com:443''"
  by (simp add: sample_run aliceWorld_def)

text \<open>
  C6, as stated, fails: the same namespace and client configuration give different
  records against a server that knows the caller as alice and one that knows the caller
  as bob; the server is asked twice, and a third time when the first connection is
  refused.
\<close>

theorem createConfig_depends_on_server_counterexample:
  "CurrentContext (projr (fst (createConfig sampleDeps ''e2e'' sampleCfg aliceWorld)))
     = ''e2e/api-example-com:443/alice''
   \<and> CurrentContext (projr (fst (createConfig sampleDeps ''e2e'' sampleCfg bobWorld)))
     = ''e2e/api-example-com:443/bob''
   \<and> fst (createConfig sampleDeps ''e2e'' sampleCfg aliceWorld)
       \<noteq> fst (createConfig sampleDeps ''e2e'' sampleCfg bobWorld)
   \<and> calls (snd (createConfig sampleDeps ''e2e'' sampleCfg aliceWorld)) = 2
   \<and> calls (snd (createConfig sampleDeps ''e2e'' sampleCfg flakyWorld)) = 3"
  by (simp add: sample_run aliceWorld_def bobWorld_def flakyWorld_def)


subsection \<open>The user lookup and the server\<close>

lemma pollUser_consumed:
  "\<exists>n. 0 < n \<and> n \<le> Suc t \<and> snd (pollUser srv t i) = i + n"
proof (induction t arbitrary: i)
  case 0
  show ?case
    by (intro exI [of _ "Suc 0"]) (auto split: prod.splits option.splits)
next
  case (Suc t)
  obtain n where n: "0 < n" "n \<le> Suc t" "snd (pollUser srv t (Suc i)) = Suc i + n"
    using Suc.IH by blast
  obtain userInfo err where ans: "srv i = (userInfo, err)" by (cases "srv i")
  show ?case
  proof (cases "\<exists>e. err = Some e \<and> strings_Contains (Error e) ''connect: connection refused''")
    case True
    then have "snd (pollUser srv (Suc t) i) = i + Suc n"
      using ans n by auto
    with n show ?thesis by (intro exI [of _ "Suc n"]) simp
  next
    case False
    then have "snd (pollUser srv (Suc t) i) = i + Suc 0"
      using ans by (auto split: option.splits)
    then show ?thesis by (intro exI [of _ "Suc 0"]) simp
  qed
qed

lemma pollUser_received:
  "snd (pollUser srv t i) = i + n \<Longrightarrow> (\<forall>k < n. srv' (j + k) = srv (i + k)) \<Longrightarrow>
   pollUser srv' t j = (fst (pollUser srv t i), j + n)"
proof (induction t arbitrary: i j n)
  case 0
  have "snd (pollUser srv 0 i) = Suc i"
    by (auto split: prod.splits option.splits)
  with "0.prems"(1) have n: "n = Suc 0" by simp
  with "0.prems"(2) have "srv' j = srv i" by simp
  with n show ?case by (auto split: prod.splits option.splits)
next
  case (Suc t)
  obtain m where m: "0 < m" "snd (pollUser srv (Suc t) i) = i + m"
    using pollUser_consumed [of "Suc t" srv i] by blast
  with Suc.prems(1) have npos: "0 < n" by simp
  with Suc.prems(2) have here: "srv' j = srv i" by (metis add.right_neutral)
  obtain userInfo err where ans: "srv i = (userInfo, err)" by (cases "srv i")
  show ?case
  proof (cases "\<exists>e. err = Some e \<and> strings_Contains (Error e) ''connect: connection refused''")
    case True
    then have unfold: "pollUser srv (Suc t) i = pollUser srv t (Suc i)"
      "pollUser srv' (Suc t) j = pollUser srv' t (Suc j)"
      using ans here by auto
    from unfold(1) Suc.prems(1) npos
    have c: "snd (pollUser srv t (Suc i)) = Suc i + (n - 1)" by simp
    have "\<forall>k < n - 1. srv' (Suc j + k) = srv (Suc i + k)"
    proof (intro allI impI)
      fix k assume "k < n - 1"
      then have "Suc k < n" by simp
      with Suc.prems(2) have "srv' (j + Suc k) = srv (i + Suc k)" by blast
      then show "srv' (Suc j + k) = srv (Suc i + k)" by simp
    qed
    with c have "pollUser srv' t (Suc j) = (fst (pollUser srv t (Suc i)), Suc j + (n - 1))"
      by (rule Suc.IH)
    with unfold npos show ?thesis by simp
  next
    case False
    then have r: "pollUser srv (Suc t) i = ((userInfo, err), Suc i)"
      "pollUser srv' (Suc t) j = ((userInfo, err), Suc j)"
      using ans here by (auto split: option.splits)
    with Suc.prems(1) have "n = Suc 0" by simp
    with r show ?thesis by simp
  qed
qed

lemma getUserPartOfNickname_world:
  "\<exists>n \<le> Suc (ticks D).
     snd (getUserPartOfNickname D clientCfg w) = w\<lparr>calls := calls w + n\<rparr>
     \<and> (\<not> isl (fst (getUserPartOfNickname D clientCfg w)) \<longrightarrow> 0 < n)"
proof (cases "NewForConfig D clientCfg (files w)")
  case (Some err)
  then show ?thesis
    by (intro exI [of _ 0]) (simp add: getUserPartOfNickname_def)
next
  case None
  obtain n where n: "0 < n" "n \<le> Suc (ticks D)"
    "snd (pollUser (answers w) (ticks D) (calls w)) = calls w + n"
    using pollUser_consumed [of "ticks D" "answers w" "calls w"] by blast
  obtain userInfo err i where p: "pollUser (answers w) (ticks D) (calls w) = ((userInfo, err), i)"
    by (metis surj_pair)
  with n have "i = calls w + n" by simp
  with None p n show ?thesis
    by (intro exI [of _ n]) (auto simp: getUserPartOfNickname_def Let_def split: option.splits)
qed

lemma getUserPartOfNickname_received:
  assumes same: "NewForConfig D clientCfg (files w') = NewForConfig D clientCfg (files w)"
    and n: "calls (snd (getUserPartOfNickname D clientCfg w)) = calls w + n"
    and recv: "\<forall>k < n. answers w' (calls w' + k) = answers w (calls w + k)"
  shows "getUserPartOfNickname D clientCfg w'
           = (fst (getUserPartOfNickname D clientCfg w), w'\<lparr>calls := calls w' + n\<rparr>)"
proof (cases "NewForConfig D clientCfg (files w)")
  case (Some err)
  with n have "n = 0" by (simp add: getUserPartOfNickname_def)
  with Some same show ?thesis by (simp add: getUserPartOfNickname_def)
next
  case None
  obtain userInfo err i where p: "pollUser (answers w) (ticks D) (calls w) = ((userInfo, err), i)"
    by (metis surj_pair)
  with None n have "i = calls w + n"
    by (auto simp: getUserPartOfNickname_def Let_def split: option.splits if_splits)
  with p have "snd (pollUser (answers w) (ticks D) (calls w)) = calls w + n" by simp
  from pollUser_received [OF this recv] p
  have "pollUser (answers w') (ticks D) (calls w') = ((userInfo, err), calls w' + n)" by simp
  with None same p show ?thesis
    by (auto simp: getUserPartOfNickname_def Let_def split: option.splits)
qed

lemma createConfig_lookups:
  "createConfig D namespace clientCfg w =
     (case getClusterNicknameFromConfig D clientCfg of
        Inl err \<Rightarrow> (Inl err, w)
      | Inr clusterNick \<Rightarrow>
     (case getUserPartOfNickname D clientCfg w of
        (Inl err, w1) \<Rightarrow> (Inl err, w1)
      | (Inr userPart1, w1) \<Rightarrow>
     (case getUserPartOfNickname D clientCfg w1 of
        (Inl err, w2) \<Rightarrow> (Inl err, w2)
      | (Inr userPart2, w2) \<Rightarrow>
          (Inr \<lparr>Clusters = [clusterNick \<mapsto> clusterOf clientCfg],
                AuthInfos = [userPart1 @ ''/'' @ clusterNick \<mapsto> credentialsOf clientCfg],
                Contexts = [namespace @ ''/'' @ clusterNick @ ''/'' @ userPart2 \<mapsto>
                   contextOf clusterNick (userPart1 @ ''/'' @ clusterNick) namespace],
                CurrentContext = namespace @ ''/'' @ clusterNick @ ''/'' @ userPart2\<rparr>, w2))))"
  by (auto simp: createConfig_def getUserNicknameFromConfig_def
        getContextNicknameFromConfig_def NewConfig_def Let_def
      split: sum.splits prod.splits)

lemma createConfig_two_lookups:
  assumes "fst (createConfig D namespace clientCfg w) = Inr config"
  shows "snd (createConfig D namespace clientCfg w)
           = snd (getUserPartOfNickname D clientCfg (snd (getUserPartOfNickname D clientCfg w)))
         \<and> calls w + 2 \<le> calls (snd (createConfig D namespace clientCfg w))
         \<and> calls (snd (createConfig D namespace clientCfg w)) \<le> calls w + 2 * Suc (ticks D)"
proof -
  from assms obtain clusterNick userPart1 w1 userPart2 w2 where
    l1: "getUserPartOfNickname D clientCfg w = (Inr userPart1, w1)" and
    l2: "getUserPartOfNickname D clientCfg w1 = (Inr userPart2, w2)" and
    c: "getClusterNicknameFromConfig D clientCfg = Inr clusterNick"
    by (auto simp: createConfig_lookups split: sum.splits prod.splits)
  then have s: "snd (createConfig D namespace clientCfg w) = w2"
    by (simp add: createConfig_lookups)
  obtain n1 where n1: "n1 \<le> Suc (ticks D)" "w1 = w\<lparr>calls := calls w + n1\<rparr>" "0 < n1"
    using getUserPartOfNickname_world [of D clientCfg w] l1 by auto
  obtain n2 where n2: "n2 \<le> Suc (ticks D)" "w2 = w1\<lparr>calls := calls w1 + n2\<rparr>" "0 < n2"
    using getUserPartOfNickname_world [of D clientCfg w1] l2 by auto
  from n1 n2 have "calls w2 = calls w + n1 + n2" by simp
  with n1 n2 s l1 l2 show ?thesis by simp
qed

lemma createConfig_received:
  assumes same: "NewForConfig D clientCfg (files w') = NewForConfig D clientCfg (files w)"
    and n: "calls (snd (createConfig D namespace clientCfg w)) = calls w + n"
    and recv: "\<forall>k < n. answers w' (calls w' + k) = answers w (calls w + k)"
  shows "createConfig D namespace clientCfg w'
           = (fst (createConfig D namespace clientCfg w), w'\<lparr>calls := calls w' + n\<rparr>)"
proof (cases "getClusterNicknameFromConfig D clientCfg")
  case (Inl err)
  with n show ?thesis by (simp add: createConfig_lookups)
next
  case (Inr clusterNick)
  obtain r1 w1 where l1: "getUserPartOfNickname D clientCfg w = (r1, w1)" by (metis surj_pair)
  obtain n1 where n1: "w1 = w\<lparr>calls := calls w + n1\<rparr>"
    using getUserPartOfNickname_world [of D clientCfg w] l1 by auto
  show ?thesis
  proof (cases r1)
    case (Inl err)
    with Inr l1 n n1 have "n = n1" by (simp add: createConfig_lookups)
    with l1 n1 have "calls (snd (getUserPartOfNickname D clientCfg w)) = calls w + n" by simp
    from getUserPartOfNickname_received [OF same this recv] l1 Inl Inr
    show ?thesis by (simp add: createConfig_lookups)
  next
    case up1: (Inr userPart1)
    obtain r2 w2 where l2: "getUserPartOfNickname D clientCfg w1 = (r2, w2)" by (metis surj_pair)
    obtain n2 where n2: "w2 = w1\<lparr>calls := calls w1 + n2\<rparr>"
      using getUserPartOfNickname_world [of D clientCfg w1] l2 by auto
    have fin: "snd (createConfig D namespace clientCfg w) = w2"
      using Inr l1 up1 l2 by (cases r2) (simp_all add: createConfig_lookups)
    with n n1 n2 have total: "n = n1 + n2" by simp
    have c1: "calls (snd (getUserPartOfNickname D clientCfg w)) = calls w + n1"
      using l1 n1 by simp
    have "\<forall>k < n1. answers w' (calls w' + k) = answers w (calls w + k)"
      using recv total by simp
    from getUserPartOfNickname_received [OF same c1 this] l1
    have first: "getUserPartOfNickname D clientCfg w' = (r1, w'\<lparr>calls := calls w' + n1\<rparr>)"
      by simp
    let ?w1' = "w'\<lparr>calls := calls w' + n1\<rparr>"
    have same1: "NewForConfig D clientCfg (files ?w1') = NewForConfig D clientCfg (files w1)"
      using same n1 by simp
    have c2: "calls (snd (getUserPartOfNickname D clientCfg w1)) = calls w1 + n2"
      using l2 n2 by simp
    have "\<forall>k < n2. answers ?w1' (calls ?w1' + k) = answers w1 (calls w1 + k)"
    proof (intro allI impI)
      fix k assume "k < n2"
      with total have "n1 + k < n" by simp
      with recv have "answers w' (calls w' + (n1 + k)) = answers w (calls w + (n1 + k))"
        by blast
      then show "answers ?w1' (calls ?w1' + k) = answers w1 (calls w1 + k)"
        using n1 by (simp add: add.assoc)
    qed
    from getUserPartOfNickname_received [OF same1 c2 this] l2
    have second: "getUserPartOfNickname D clientCfg ?w1' = (r2, w'\<lparr>calls := calls w' + n\<rparr>)"
      using total by (simp add: add.assoc)
    show ?thesis
      using Inr l1 up1 l2 first second
      by (cases r2) (simp_all add: createConfig_lookups)
  qed
qed

lemma getUserPartOfNickname_retry:
  assumes "NewForConfig D clientCfg (files w) = None" and "ticks D = Suc t"
    and "answers w (calls w) = (userInfo, Some e)"
    and "strings_Contains (Error e) ''connect: connection refused''"
  shows "getUserPartOfNickname D clientCfg w
           = getUserPartOfNickname (D\<lparr>ticks := t\<rparr>) clientCfg (w\<lparr>calls := Suc (calls w)\<rparr>)"
  using assms by (simp add: getUserPartOfNickname_def)

text \<open>
  C6, as amended. \<^verbatim>\<open>createConfig\<close> is a synchronous transformation of its arguments
  and of what is outside the program: whether the user client can be built, for which
  the certificate files the configuration names are read, and the API server's answers
  to the user lookup. A call that succeeds has made the user lookup twice, one after the
  other, and so has sent at least two requests and at most twice the number of attempts
  that fit into the poll's timeout. An invocation with the same namespace and client
  configuration for which building the client has the same outcome and which receives,
  request by request, the answers another invocation received, yields the same result
  and sends the same number of requests. A lookup whose first answer is a refused
  connection, when an attempt is left, continues with the next answer and one attempt
  less.
\<close>

theorem createConfig_determined_by_arguments_and_answers:
  "(fst (createConfig D namespace clientCfg w) = Inr config \<longrightarrow>
      snd (createConfig D namespace clientCfg w)
        = snd (getUserPartOfNickname D clientCfg (snd (getUserPartOfNickname D clientCfg w)))
      \<and> calls w + 2 \<le> calls (snd (createConfig D namespace clientCfg w))
      \<and> calls (snd (createConfig D namespace clientCfg w)) \<le> calls w + 2 * Suc (ticks D))
   \<and> (NewForConfig D clientCfg (files w') = NewForConfig D clientCfg (files w)
        \<and> calls (snd (createConfig D namespace clientCfg w)) = calls w + n
        \<and> (\<forall>k < n. answers w' (calls w' + k) = answers w (calls w + k)) \<longrightarrow>
        createConfig D namespace clientCfg w'
          = (fst (createConfig D namespace clientCfg w), w'\<lparr>calls := calls w' + n\<rparr>))
   \<and> (NewForConfig D clientCfg (files w) = None \<and> ticks D = Suc t
        \<and> answers w (calls w) = (userInfo, Some e)
        \<and> strings_Contains (Error e) ''connect: connection refused'' \<longrightarrow>
        getUserPartOfNickname D clientCfg w
          = getUserPartOfNickname (D\<lparr>ticks := t\<rparr>) clientCfg (w\<lparr>calls := Suc (calls w)\<rparr>))"
  using createConfig_two_lookups [of D namespace clientCfg w config]
    createConfig_received [of D clientCfg w' w namespace n]
    getUserPartOfNickname_retry [of D clientCfg w t userInfo e]
  by blast

theorem createConfig_determined_by_arguments_and_answers_witness:
  "\<not> isl (fst (createConfig sampleDeps ''e2e'' sampleCfg aliceWorld))
   \<and> calls (snd (createConfig sampleDeps ''e2e'' sampleCfg aliceWorld)) = calls aliceWorld + 2
   \<and> NewForConfig sampleDeps sampleCfg (files movedWorld)
       = NewForConfig sampleDeps sampleCfg (files aliceWorld)
   \<and> answers movedWorld (calls movedWorld + 0) = answers aliceWorld (calls aliceWorld + 0)
   \<and> answers movedWorld (calls movedWorld + 1) = answers aliceWorld (calls aliceWorld + 1)
   \<and> answers movedWorld (calls movedWorld + 2) \<noteq> answers aliceWorld (calls aliceWorld + 2)
   \<and> createConfig sampleDeps ''e2e'' sampleCfg movedWorld
       = (fst (createConfig sampleDeps ''e2e'' sampleCfg aliceWorld),
          movedWorld\<lparr>calls := calls movedWorld + 2\<rparr>)
   \<and> NewForConfig sampleDeps sampleCfg (files flakyWorld) = None
   \<and> ticks sampleDeps = Suc (Suc 0)
   \<and> answers flakyWorld (calls flakyWorld)
       = (\<lparr>Name = ''''\<rparr>,
          Some (OtherError ''dial tcp 192.0.2.10:443: connect: connection refused''))
   \<and> strings_Contains
        (Error (OtherError ''dial tcp 192.0.2.10:443: connect: connection refused''))
        ''connect: connection refused''
   \<and> getUserPartOfNickname sampleDeps sampleCfg flakyWorld
       = (Inr ''alice'', flakyWorld\<lparr>calls := 2\<rparr>)
   \<and> getUserPartOfNickname (sampleDeps\<lparr>ticks := Suc 0\<rparr>) sampleCfg
        (flakyWorld\<lparr>calls := Suc (calls flakyWorld)\<rparr>)
       = (Inr ''alice'', flakyWorld\<lparr>calls := 2\<rparr>)"
  using createConfig_determined_by_arguments_and_answers
    [where D = sampleDeps and namespace = "''e2e''" and clientCfg = sampleCfg
       and w = aliceWorld and w' = movedWorld and n = 2
       and config = "projr (fst (createConfig sampleDeps ''e2e'' sampleCfg aliceWorld))"
       and t = "Suc 0" and userInfo = "\<lparr>Name = ''''\<rparr>"
       and e = "OtherError ''dial tcp 192.0.2.10:443: connect: connection refused''"]
    createConfig_determined_by_arguments_and_answers
    [where D = sampleDeps and namespace = "''e2e''" and clientCfg = sampleCfg
       and w = flakyWorld and w' = flakyWorld and n = 3
       and config = "projr (fst (createConfig sampleDeps ''e2e'' sampleCfg flakyWorld))"
       and t = "Suc 0" and userInfo = "\<lparr>Name = ''''\<rparr>"
       and e = "OtherError ''dial tcp 192.0.2.10:443: connect: connection refused''"]
  by (simp add: createConfig_def getClusterNicknameFromConfig_def
        getUserNicknameFromConfig_def getContextNicknameFromConfig_def
        getUserPartOfNickname_def sampleDeps_def sampleCfg_def sampleNewForConfig_def
        missingFile_def strings_Replace_def NewConfig_def Let_def
        aliceWorld_def movedWorld_def flakyWorld_def)
end
